theory Spec2Isabelle
  imports Main
begin

section \<open>Entitlement and scan-quota logic of the BirdScope mobile client\<close>

text \<open>
  The embedding follows three source units:
  \<^item> the auth context (\<^verbatim>\<open>checkSubscriptionStatus\<close>, \<^verbatim>\<open>canAccessPremiumFeature\<close>,
    \<^verbatim>\<open>getRemainingScans\<close>, \<^verbatim>\<open>updateUser\<close>),
  \<^item> the bird context (\<^verbatim>\<open>identifyBird\<close>),
  \<^item> the camera screen (\<^verbatim>\<open>takePicture\<close>, \<^verbatim>\<open>pickImage\<close>, \<^verbatim>\<open>identifyBirdPhoto\<close>) and the
    sightings screen (\<^verbatim>\<open>hasLimitReached\<close>, \<^verbatim>\<open>exportSightings\<close>).
  React state is passed explicitly; every clock reading, the reply of the backend and the
  outcome of the secure store are inputs of the functions that consume them.
\<close>

subsection \<open>Data\<close>

text \<open>
  The stored user object. Only the three fields the entitlement code reads are kept; a field
  that is absent (\<^verbatim>\<open>undefined\<close>) is \<open>None\<close>. \<open>last_scan_date\<close> is the instant the ISO
  string written by \<^verbatim>\<open>toISOString\<close> denotes, in milliseconds since the epoch; numbers are
  integers.
\<close>

record user_data =
  subscription_plan :: "string option"
  scans_today :: "int option"
  last_scan_date :: "int option"

text \<open>The argument of \<^verbatim>\<open>updateUser\<close>: the keys of the object literal that are present.\<close>

record user_patch =
  set_subscription_plan :: "string option"
  set_scans_today :: "int option"
  set_last_scan_date :: "int option"

text \<open>
  A value that \<^verbatim>\<open>premiumFeatures[feature] || false\<close> can produce: a boolean, or a member the
  object literal inherits from \<^verbatim>\<open>Object.prototype\<close> (named by its key).
\<close>

datatype jsval = JBool bool | JInherited string

fun truthy :: "jsval \<Rightarrow> bool" where
  "truthy (JBool b) = b"
| "truthy (JInherited k) = True"

datatype error = Error string

text \<open>The decoded identification result (an object, hence truthy), named by its species.\<close>

datatype bird = Bird string

text \<open>
  What \<^verbatim>\<open>birdAPI.identifyBird\<close> does once the request is sent: it throws (a response that
  is not ok, or a network failure) or returns the decoded body, which may be falsy (\<open>None\<close>).
\<close>

datatype api_reply = ApiError string | ApiJson "bird option"

text \<open>
  The state of the providers and of the camera screen. \<open>requests\<close> is instrumentation: the
  number of requests sent to the identification endpoint so far.
\<close>

record app_state =
  authToken :: "string option"
  user :: "user_data option"
  currentBird :: "bird option"
  capturedImage :: "string option"
  requests :: nat

subsection \<open>Dates\<close>

text \<open>
  \<^verbatim>\<open>toDateString\<close> keeps the local calendar day of an instant: the day number under the
  device's offset \<open>tz\<close> from UTC (in milliseconds).
\<close>

definition toDateString :: "int \<Rightarrow> int \<Rightarrow> int" where
  "toDateString tz t = (t + tz) div 86400000"

text \<open>
  \<^verbatim>\<open>user.last_scan_date ? new Date(user.last_scan_date).toDateString() : ''\<close>; the empty
  string, which no date string equals, is \<open>None\<close>.
\<close>

definition lastScanDate :: "int \<Rightarrow> user_data \<Rightarrow> int option" where
  "lastScanDate tz u = map_option (toDateString tz) (last_scan_date u)"

text \<open>The expression \<^verbatim>\<open>user.scans_today || 0\<close>.\<close>

definition scans_or_zero :: "user_data \<Rightarrow> int" where
  "scans_or_zero u = (case scans_today u of None \<Rightarrow> 0 | Some n \<Rightarrow> n)"

subsection \<open>Auth context\<close>

definition checkSubscriptionStatus :: "user_data option \<Rightarrow> string" where
  "checkSubscriptionStatus uo =
     (case uo of
        None \<Rightarrow> ''free''
      | Some u \<Rightarrow>
          (case subscription_plan u of
             None \<Rightarrow> ''free''
           | Some p \<Rightarrow> if p = [] then ''free'' else p))"

definition premiumFeatures :: "(string \<times> bool) list" where
  "premiumFeatures =
     [(''unlimited_scans'', True),
      (''migration_maps'', True),
      (''full_audio'', True),
      (''detailed_info'', True),
      (''unlimited_sightings'', True),
      (''community_post'', True),
      (''offline_mode'', True),
      (''push_notifications'', True)]"

text \<open>
  The keys every object literal inherits from \<^verbatim>\<open>Object.prototype\<close> in the JavaScript
  runtime (ECMAScript, with its Annex B accessors).
\<close>

definition object_prototype_keys :: "string list" where
  "object_prototype_keys =
     [''constructor'', ''hasOwnProperty'', ''isPrototypeOf'', ''propertyIsEnumerable'',
      ''toLocaleString'', ''toString'', ''valueOf'', ''__proto__'',
      ''__defineGetter__'', ''__defineSetter__'', ''__lookupGetter__'', ''__lookupSetter__'']"

text \<open>\<^verbatim>\<open>premiumFeatures[feature]\<close>: an own key first, then the prototype; \<open>None\<close> is \<^verbatim>\<open>undefined\<close>.\<close>

definition premiumFeatures_get :: "string \<Rightarrow> jsval option" where
  "premiumFeatures_get feature =
     (case map_of premiumFeatures feature of
        Some b \<Rightarrow> Some (JBool b)
      | None \<Rightarrow>
          if List.member object_prototype_keys feature then Some (JInherited feature)
          else None)"

text \<open>The expression \<^verbatim>\<open>v || false\<close>.\<close>

definition or_false :: "jsval option \<Rightarrow> jsval" where
  "or_false v = (case v of None \<Rightarrow> JBool False | Some x \<Rightarrow> if truthy x then x else JBool False)"

definition canAccessPremiumFeature :: "user_data option \<Rightarrow> string \<Rightarrow> jsval" where
  "canAccessPremiumFeature uo feature =
     (if checkSubscriptionStatus uo = ''free'' then JBool False
      else or_false (premiumFeatures_get feature))"

definition getRemainingScans :: "int \<Rightarrow> int \<Rightarrow> user_data option \<Rightarrow> int" where
  "getRemainingScans tz now uo =
     (case uo of
        None \<Rightarrow> 0
      | Some u \<Rightarrow>
          if checkSubscriptionStatus uo \<noteq> ''free'' then - 1
          else if Some (toDateString tz now) \<noteq> lastScanDate tz u then 3
          else max 0 (3 - scans_or_zero u))"

text \<open>\<^verbatim>\<open>{ ...user, ...updatedUserData }\<close>; spreading \<^verbatim>\<open>null\<close> contributes no key.\<close>

definition spread :: "user_data option \<Rightarrow> user_patch \<Rightarrow> user_data" where
  "spread uo p =
     (let base = (case uo of
                    None \<Rightarrow> \<lparr>subscription_plan = None, scans_today = None, last_scan_date = None\<rparr>
                  | Some u \<Rightarrow> u)
      in \<lparr>subscription_plan =
            (case set_subscription_plan p of None \<Rightarrow> subscription_plan base | Some v \<Rightarrow> Some v),
          scans_today =
            (case set_scans_today p of None \<Rightarrow> scans_today base | Some v \<Rightarrow> Some v),
          last_scan_date =
            (case set_last_scan_date p of None \<Rightarrow> last_scan_date base | Some v \<Rightarrow> Some v)\<rparr>)"

text \<open>
  \<^verbatim>\<open>updateUser\<close>: when the secure store rejects the write (\<open>store_ok = False\<close>) the error is
  logged and the user is left as it was.
\<close>

definition updateUser :: "bool \<Rightarrow> user_data option \<Rightarrow> user_patch \<Rightarrow> user_data option" where
  "updateUser store_ok uo p = (if store_ok then Some (spread uo p) else uo)"

subsection \<open>Bird context\<close>

text \<open>
  \<^verbatim>\<open>identifyBird\<close>. \<open>t_today\<close> is the clock reading behind \<^verbatim>\<open>today\<close>, \<open>t_stamp\<close> the later
  one written to \<^verbatim>\<open>last_scan_date\<close>. The request is sent whenever a token is present; the
  scan is recorded only after a truthy result came back. The \<^verbatim>\<open>isIdentifying\<close> flag, raised
  and lowered within the call, is left out.
\<close>

definition identifyBird ::
  "int \<Rightarrow> int \<Rightarrow> int \<Rightarrow> bool \<Rightarrow> api_reply \<Rightarrow> app_state \<Rightarrow> (error + bird) \<times> app_state" where
  "identifyBird tz t_today t_stamp store_ok reply s =
     (if authToken s = None \<or> authToken s = Some [] then
        (Inl (Error ''Authentication required''), s)
      else
        let s1 = s\<lparr>requests := Suc (requests s)\<rparr> in
        (case reply of
           ApiError msg \<Rightarrow> (Inl (Error msg), s1)
         | ApiJson None \<Rightarrow> (Inl (Error ''Failed to identify bird''), s1)
         | ApiJson (Some result) \<Rightarrow>
             let s2 = s1\<lparr>currentBird := Some result\<rparr> in
             (case user s2 of
                None \<Rightarrow> (Inr result, s2)
              | Some u \<Rightarrow>
                  if Some (toDateString tz t_today) \<noteq> lastScanDate tz u then
                    (Inr result,
                     s2\<lparr>user := updateUser store_ok (user s2)
                        \<lparr>set_subscription_plan = None, set_scans_today = Some 1,
                         set_last_scan_date = Some t_stamp\<rparr>\<rparr>)
                  else
                    (Inr result,
                     s2\<lparr>user := updateUser store_ok (user s2)
                        \<lparr>set_subscription_plan = None,
                         set_scans_today = Some (scans_or_zero u + 1),
                         set_last_scan_date = Some t_stamp\<rparr>\<rparr>))))"

subsection \<open>Camera screen\<close>

text \<open>What a handler of a screen shows or does, besides changing state.\<close>

datatype ui_event =
    Nothing
  | Alert string
  | ShowError string
  | ShowSuccess string
  | Captured
  | Navigate string "string option"

datatype pick_result = PickThrew | PickCanceled | PickAsset string

text \<open>
  \<^verbatim>\<open>takePicture\<close>: \<open>ready\<close> stands for \<^verbatim>\<open>cameraRef.current && isCameraReady\<close>, \<open>photo\<close> for
  what \<^verbatim>\<open>takePictureAsync\<close> gives (\<open>None\<close> when it throws).
\<close>

definition takePicture ::
  "int \<Rightarrow> int \<Rightarrow> bool \<Rightarrow> string option \<Rightarrow> app_state \<Rightarrow> ui_event \<times> app_state" where
  "takePicture tz now ready photo s =
     (if \<not> ready then (Nothing, s)
      else if getRemainingScans tz now (user s) = 0 then (Alert ''Daily Limit Reached'', s)
      else
        (case photo of
           None \<Rightarrow> (ShowError ''Failed to take picture. Please try again.'', s)
         | Some uri \<Rightarrow> (Captured, s\<lparr>capturedImage := Some uri\<rparr>)))"

definition pickImage ::
  "int \<Rightarrow> int \<Rightarrow> pick_result \<Rightarrow> app_state \<Rightarrow> ui_event \<times> app_state" where
  "pickImage tz now picked s =
     (if getRemainingScans tz now (user s) = 0 then (Alert ''Daily Limit Reached'', s)
      else
        (case picked of
           PickThrew \<Rightarrow> (ShowError ''Failed to pick image. Please try again.'', s)
         | PickCanceled \<Rightarrow> (Nothing, s)
         | PickAsset uri \<Rightarrow> (Captured, s\<lparr>capturedImage := Some uri\<rparr>)))"

text \<open>The method \<^verbatim>\<open>String.prototype.includes\<close>.\<close>

fun js_includes :: "string \<Rightarrow> string \<Rightarrow> bool" where
  "js_includes [] pat = (pat = [])"
| "js_includes (c # cs) pat = (take (length pat) (c # cs) = pat \<or> js_includes cs pat)"

definition identifyBirdPhoto ::
  "int \<Rightarrow> int \<Rightarrow> int \<Rightarrow> bool \<Rightarrow> api_reply \<Rightarrow> app_state \<Rightarrow> ui_event \<times> app_state" where
  "identifyBirdPhoto tz t_today t_stamp store_ok reply s =
     (if capturedImage s = None \<or> capturedImage s = Some [] then (Nothing, s)
      else
        (case identifyBird tz t_today t_stamp store_ok reply s of
           (Inr result, s') \<Rightarrow> (Navigate ''ScanResults'' None, s'\<lparr>capturedImage := None\<rparr>)
         | (Inl (Error msg), s') \<Rightarrow>
             if js_includes msg ''Daily scan limit reached'' then (Alert ''Upgrade to Premium'', s')
             else (ShowError (if msg = [] then ''Failed to identify bird'' else msg), s')))"

subsection \<open>Sightings screen\<close>

definition hasLimitReached :: "user_data option \<Rightarrow> 'a list \<Rightarrow> bool" where
  "hasLimitReached uo sightings =
     (\<not> truthy (canAccessPremiumFeature uo ''unlimited_sightings'') \<and> 5 \<le> length sightings)"

definition exportSightings :: "user_data option \<Rightarrow> ui_event" where
  "exportSightings uo =
     (if \<not> truthy (canAccessPremiumFeature uo ''unlimited_sightings'')
      then Navigate ''PremiumUpsell'' (Some ''export_sightings'')
      else ShowSuccess ''Sightings exported to your downloads folder'')"

subsection \<open>Sequences of user actions\<close>

text \<open>
  The count of scans recorded for the day of \<open>now\<close>: the stored \<open>scans_today\<close> when the
  stored date is that day, and 0 otherwise.
\<close>

definition todayCount :: "int \<Rightarrow> int \<Rightarrow> user_data option \<Rightarrow> int" where
  "todayCount tz now uo =
     (case uo of
        None \<Rightarrow> 0
      | Some u \<Rightarrow> if lastScanDate tz u = Some (toDateString tz now) then scans_or_zero u else 0)"

text \<open>The inputs of one call of \<^verbatim>\<open>identifyBird\<close>.\<close>

record call_input =
  t_today :: int
  t_stamp :: int
  store_ok :: bool
  reply :: api_reply

text \<open>Calls of \<^verbatim>\<open>identifyBird\<close> one after the other, each on the state the previous one left.\<close>

fun identifyBird_calls ::
  "int \<Rightarrow> call_input list \<Rightarrow> app_state \<Rightarrow> (error + bird) list \<times> app_state" where
  "identifyBird_calls tz [] s = ([], s)"
| "identifyBird_calls tz (c # cs) s =
     (case identifyBird tz (t_today c) (t_stamp c) (store_ok c) (reply c) s of
        (r, s') \<Rightarrow> (case identifyBird_calls tz cs s' of (rs, s'') \<Rightarrow> (r # rs, s'')))"

text \<open>
  One scan attempt on the camera screen: the shutter is pressed at \<open>t_gate\<close> and, when a
  photo was captured, the Identify button is pressed.
\<close>

record attempt_input = call_input +
  t_gate :: int
  photo :: "string option"

definition scan_attempt :: "int \<Rightarrow> attempt_input \<Rightarrow> app_state \<Rightarrow> ui_event \<times> app_state" where
  "scan_attempt tz a s =
     (case takePicture tz (t_gate a) True (photo a) s of
        (Captured, s1) \<Rightarrow> identifyBirdPhoto tz (t_today a) (t_stamp a) (store_ok a) (reply a) s1
      | (e, s1) \<Rightarrow> (e, s1))"

fun scan_attempts ::
  "int \<Rightarrow> attempt_input list \<Rightarrow> app_state \<Rightarrow> ui_event list \<times> app_state" where
  "scan_attempts tz [] s = ([], s)"
| "scan_attempts tz (a # as) s =
     (case scan_attempt tz a s of
        (e, s') \<Rightarrow> (case scan_attempts tz as s' of (es, s'') \<Rightarrow> (e # es, s'')))"

subsection \<open>Notions used in the statements\<close>

text \<open>\<^verbatim>\<open>authToken\<close> is truthy.\<close>

definition signed_in :: "app_state \<Rightarrow> bool" where
  "signed_in s = (case authToken s of None \<Rightarrow> False | Some tok \<Rightarrow> tok \<noteq> [])"

text \<open>
  A call whose clock readings fall on day \<open>d\<close>, whose request is answered with a result and
  whose write to the secure store succeeds.
\<close>

definition successful_on :: "int \<Rightarrow> int \<Rightarrow> 'a call_input_scheme \<Rightarrow> bool" where
  "successful_on tz d c =
     (toDateString tz (t_today c) = d \<and> toDateString tz (t_stamp c) = d \<and> store_ok c \<and>
      (case reply c of ApiJson (Some b) \<Rightarrow> True | _ \<Rightarrow> False))"

text \<open>A scan attempt on day \<open>d\<close> in which the camera delivers a photo and the call succeeds.\<close>

definition attempt_ok :: "int \<Rightarrow> int \<Rightarrow> attempt_input \<Rightarrow> bool" where
  "attempt_ok tz d a =
     (successful_on tz d a \<and> toDateString tz (t_gate a) = d \<and>
      (case photo a of None \<Rightarrow> False | Some uri \<Rightarrow> uri \<noteq> []))"

definition is_result :: "error + bird \<Rightarrow> bool" where
  "is_result r = (case r of Inl e \<Rightarrow> False | Inr b \<Rightarrow> True)"

text \<open>Sample data for the concrete instances.\<close>

definition alice :: user_data where
  "alice = \<lparr>subscription_plan = Some ''free'', scans_today = None, last_scan_date = None\<rparr>"

definition carol :: user_data where
  "carol = \<lparr>subscription_plan = Some ''premium_monthly'', scans_today = Some 0,
            last_scan_date = Some 500\<rparr>"

definition phone :: "user_data \<Rightarrow> app_state" where
  "phone u = \<lparr>authToken = Some ''token'', user = Some u, currentBird = None,
              capturedImage = None, requests = 0\<rparr>"

definition robin_call :: call_input where
  "robin_call = \<lparr>t_today = 1000, t_stamp = 1001, store_ok = True,
                 reply = ApiJson (Some (Bird ''Robin''))\<rparr>"

definition dave :: user_data where
  "dave = \<lparr>subscription_plan = Some ''free'', scans_today = Some 3, last_scan_date = Some 500\<rparr>"

definition erin :: user_data where
  "erin = \<lparr>subscription_plan = None, scans_today = None, last_scan_date = None\<rparr>"

definition robin_attempt :: attempt_input where
  "robin_attempt = \<lparr>t_today = 1000, t_stamp = 1001, store_ok = True,
                    reply = ApiJson (Some (Bird ''Robin'')), t_gate = 900,
                    photo = Some ''file:///photo.jpg''\<rparr>"

definition next_day_attempt :: attempt_input where
  "next_day_attempt = \<lparr>t_today = 86401000, t_stamp = 86401001, store_ok = True,
                    reply = ApiJson (Some (Bird ''Wren'')), t_gate = 86400900,
                    photo = Some ''file:///wren.jpg''\<rparr>"

definition frank :: user_data where
  "frank = \<lparr>subscription_plan = Some ''free'', scans_today = Some 2, last_scan_date = Some 500\<rparr>"

section \<open>Properties\<close>

subsection \<open>One identification, and runs of them\<close>

lemma identifyBird_recorded:
  assumes "signed_in s" and "user s = Some u"
  shows "identifyBird tz tt ts True (ApiJson (Some b)) s =
     (Inr b, s\<lparr>requests := Suc (requests s), currentBird := Some b,
        user := Some (u\<lparr>scans_today := Some (todayCount tz tt (Some u) + 1),
                        last_scan_date := Some ts\<rparr>)\<rparr>)"
  using assms
  by (auto simp: identifyBird_def signed_in_def Let_def updateUser_def spread_def todayCount_def
      split: option.splits)

lemma identifyBird_signed_out:
  "\<not> signed_in s \<Longrightarrow>
   identifyBird tz tt ts ok rp s = (Inl (Error ''Authentication required''), s)"
  by (auto simp: identifyBird_def signed_in_def split: option.splits)

lemma identifyBird_requests:
  "signed_in s \<Longrightarrow> requests (snd (identifyBird tz tt ts ok rp s)) = Suc (requests s)"
  by (auto simp: identifyBird_def signed_in_def Let_def split: option.splits api_reply.splits)

lemma todayCount_after:
  "toDateString tz ts = toDateString tz now \<Longrightarrow>
   todayCount tz now (Some (u\<lparr>scans_today := Some n, last_scan_date := Some ts\<rparr>)) = n"
  by (simp add: todayCount_def lastScanDate_def scans_or_zero_def)

lemma status_after:
  "checkSubscriptionStatus (Some (u\<lparr>scans_today := a, last_scan_date := b\<rparr>)) =
   checkSubscriptionStatus (Some u)"
  by (simp add: checkSubscriptionStatus_def)

lemma todayCount_same_day:
  "toDateString tz t = toDateString tz t' \<Longrightarrow> todayCount tz t uo = todayCount tz t' uo"
  by (simp add: todayCount_def split: option.splits)

lemma identifyBird_call_success:
  assumes "signed_in s" and "user s = Some u" and "successful_on tz d c"
  shows "\<exists>b. identifyBird tz (t_today c) (t_stamp c) (store_ok c) (reply c) s =
     (Inr b, s\<lparr>requests := Suc (requests s), currentBird := Some b,
        user := Some (u\<lparr>scans_today := Some (todayCount tz (t_today c) (Some u) + 1),
                        last_scan_date := Some (t_stamp c)\<rparr>)\<rparr>)"
proof -
  from assms(3) obtain b where r: "reply c = ApiJson (Some b)" and ok: "store_ok c"
    and d: "toDateString tz (t_today c) = d" "toDateString tz (t_stamp c) = d"
    by (auto simp: successful_on_def split: api_reply.splits option.splits)
  show ?thesis using identifyBird_recorded[OF assms(1,2), of tz "t_today c" "t_stamp c" b] r ok by auto
qed

lemma identifyBird_calls_success:
  assumes "signed_in s" and "user s = Some u"
    and "\<forall>c\<in>set cs. successful_on tz (toDateString tz now) c"
  shows "\<exists>rs s' u'. identifyBird_calls tz cs s = (rs, s') \<and> length rs = length cs \<and>
          (\<forall>r\<in>set rs. is_result r) \<and> signed_in s' \<and> user s' = Some u' \<and>
          requests s' = requests s + length cs \<and>
          checkSubscriptionStatus (Some u') = checkSubscriptionStatus (Some u) \<and>
          todayCount tz now (Some u') = todayCount tz now (Some u) + int (length cs)"
  using assms
proof (induction cs arbitrary: s u)
  case Nil
  then show ?case by simp
next
  case (Cons c cs)
  let ?d = "toDateString tz now"
  from Cons.prems have c: "successful_on tz ?d c" by simp
  from identifyBird_call_success[OF Cons.prems(1,2) c] obtain b where
    step: "identifyBird tz (t_today c) (t_stamp c) (store_ok c) (reply c) s =
     (Inr b, s\<lparr>requests := Suc (requests s), currentBird := Some b,
        user := Some (u\<lparr>scans_today := Some (todayCount tz (t_today c) (Some u) + 1),
                        last_scan_date := Some (t_stamp c)\<rparr>)\<rparr>)" (is "_ = (_, ?s1)")
    by blast
  let ?u1 = "u\<lparr>scans_today := Some (todayCount tz (t_today c) (Some u) + 1),
                        last_scan_date := Some (t_stamp c)\<rparr>"
  have days: "toDateString tz (t_today c) = ?d" "toDateString tz (t_stamp c) = ?d"
    using c by (simp_all add: successful_on_def)
  have s1: "signed_in ?s1" "user ?s1 = Some ?u1"
    using Cons.prems(1) by (simp_all add: signed_in_def)
  have rest: "\<forall>c\<in>set cs. successful_on tz ?d c" using Cons.prems(3) by simp
  from Cons.IH[OF s1 rest] obtain rs s' u' where
    ih: "identifyBird_calls tz cs ?s1 = (rs, s')" "length rs = length cs"
      "\<forall>r\<in>set rs. is_result r" "signed_in s'" "user s' = Some u'"
      "requests s' = requests ?s1 + length cs"
      "checkSubscriptionStatus (Some u') = checkSubscriptionStatus (Some ?u1)"
      "todayCount tz now (Some u') = todayCount tz now (Some ?u1) + int (length cs)"
    by blast
  have cnt: "todayCount tz now (Some ?u1) = todayCount tz now (Some u) + 1"
    using todayCount_after[where tz=tz and ts="t_stamp c" and now=now and u=u] days todayCount_same_day[OF days(1), of "Some u"]
    by simp
  show ?case
    using step ih cnt by (simp add: is_result_def status_after)
qed

lemma getRemainingScans_todayCount:
  "getRemainingScans tz now (Some u) =
     (if checkSubscriptionStatus (Some u) \<noteq> ''free'' then - 1
      else max 0 (3 - todayCount tz now (Some u)))"
  by (auto simp: getRemainingScans_def todayCount_def)

lemma getRemainingScans_premium:
  "subscription_plan u \<in> {Some ''premium_monthly'', Some ''premium_yearly''} \<Longrightarrow>
   getRemainingScans tz now (Some u) = - 1"
  by (auto simp: getRemainingScans_def checkSubscriptionStatus_def)

lemma identifyBird_user_cases:
  "user (snd (identifyBird tz tt ts ok rp s)) = user s \<or>
   (\<exists>u. user s = Some u \<and>
      user (snd (identifyBird tz tt ts ok rp s)) =
        Some (u\<lparr>scans_today := Some (todayCount tz tt (Some u) + 1), last_scan_date := Some ts\<rparr>))"
  by (auto simp: identifyBird_def Let_def updateUser_def spread_def todayCount_def
      split: option.splits api_reply.splits)

lemma identifyBird_monotone:
  assumes "toDateString tz tt = toDateString tz now" and "toDateString tz ts = toDateString tz now"
  shows "todayCount tz now (user s) \<le> todayCount tz now (user (snd (identifyBird tz tt ts ok rp s)))"
proof -
  from identifyBird_user_cases[of tz tt ts ok rp s] show ?thesis
  proof
    assume "user (snd (identifyBird tz tt ts ok rp s)) = user s"
    then show ?thesis by simp
  next
    assume "\<exists>u. user s = Some u \<and>
      user (snd (identifyBird tz tt ts ok rp s)) =
        Some (u\<lparr>scans_today := Some (todayCount tz tt (Some u) + 1), last_scan_date := Some ts\<rparr>)"
    then obtain u where u: "user s = Some u"
      "user (snd (identifyBird tz tt ts ok rp s)) =
        Some (u\<lparr>scans_today := Some (todayCount tz tt (Some u) + 1), last_scan_date := Some ts\<rparr>)"
      by blast
    have "todayCount tz now (user (snd (identifyBird tz tt ts ok rp s))) =
        todayCount tz tt (Some u) + 1"
      unfolding u(2) using assms(2) by (rule todayCount_after)
    also have "todayCount tz tt (Some u) = todayCount tz now (Some u)"
      using assms(1) by (rule todayCount_same_day)
    finally show ?thesis using u(1) by simp
  qed
qed

lemma scan_attempt_allowed:
  assumes "signed_in s" and "user s = Some u" and "checkSubscriptionStatus (Some u) = ''free''"
    and "attempt_ok tz d a" and "todayCount tz (t_gate a) (Some u) < 3"
  shows "fst (scan_attempt tz a s) = Navigate ''ScanResults'' None \<and>
         signed_in (snd (scan_attempt tz a s)) \<and>
         capturedImage (snd (scan_attempt tz a s)) = None \<and>
         requests (snd (scan_attempt tz a s)) = Suc (requests s) \<and>
         user (snd (scan_attempt tz a s)) =
           Some (u\<lparr>scans_today := Some (todayCount tz (t_today a) (Some u) + 1),
                    last_scan_date := Some (t_stamp a)\<rparr>)"
proof -
  from assms(4) obtain uri b where a: "photo a = Some uri" "uri \<noteq> []"
    "reply a = ApiJson (Some b)" "store_ok a"
    by (auto simp: attempt_ok_def successful_on_def split: option.splits api_reply.splits)
  have gate: "getRemainingScans tz (t_gate a) (user s) \<noteq> 0"
    using assms(2,3,5) by (simp add: getRemainingScans_todayCount)
  let ?s1 = "s\<lparr>capturedImage := Some uri\<rparr>"
  have tp: "takePicture tz (t_gate a) True (photo a) s = (Captured, ?s1)"
    using gate a by (simp add: takePicture_def)
  have s1: "signed_in ?s1" "user ?s1 = Some u"
    using assms(1,2) by (simp_all add: signed_in_def)
  have sa: "scan_attempt tz a s =
      identifyBirdPhoto tz (t_today a) (t_stamp a) True (ApiJson (Some b)) ?s1"
    using a(3,4) by (simp add: scan_attempt_def tp)
  have "identifyBirdPhoto tz (t_today a) (t_stamp a) True (ApiJson (Some b)) ?s1 =
      (Navigate ''ScanResults'' None,
       ?s1\<lparr>requests := Suc (requests ?s1), currentBird := Some b,
          user := Some (u\<lparr>scans_today := Some (todayCount tz (t_today a) (Some u) + 1),
                          last_scan_date := Some (t_stamp a)\<rparr>),
          capturedImage := None\<rparr>)"
    using a(2) by (simp add: identifyBirdPhoto_def identifyBird_recorded[OF s1])
  with sa assms(1) show ?thesis by (simp add: signed_in_def)
qed

lemma scan_attempt_denied:
  assumes "user s = Some u" and "checkSubscriptionStatus (Some u) = ''free''"
    and "3 \<le> todayCount tz (t_gate a) (Some u)"
  shows "scan_attempt tz a s = (Alert ''Daily Limit Reached'', s)"
  using assms by (simp add: scan_attempt_def takePicture_def getRemainingScans_todayCount)

lemma scan_attempts_run:
  assumes "signed_in s" and "user s = Some u" and "checkSubscriptionStatus (Some u) = ''free''"
    and "todayCount tz now (Some u) = c" and "0 \<le> c" and "c \<le> 3"
    and "\<forall>a\<in>set as. attempt_ok tz (toDateString tz now) a"
  shows "\<exists>s' u'. scan_attempts tz as s =
            (replicate (min (nat (3 - c)) (length as)) (Navigate ''ScanResults'' None) @
             replicate (length as - nat (3 - c)) (Alert ''Daily Limit Reached''), s') \<and>
          user s' = Some u' \<and>
          todayCount tz now (Some u') = min 3 (c + int (length as)) \<and>
          requests s' = requests s + min (nat (3 - c)) (length as) \<and>
          checkSubscriptionStatus (Some u') = ''free''"
  using assms
proof (induction as arbitrary: s u c)
  case Nil
  then show ?case by simp
next
  case (Cons a as)
  let ?d = "toDateString tz now"
  from Cons.prems(7) have a: "attempt_ok tz ?d a" and
    rest: "\<forall>a\<in>set as. attempt_ok tz ?d a" by simp_all
  from a have days: "toDateString tz (t_gate a) = ?d" "toDateString tz (t_today a) = ?d"
    "toDateString tz (t_stamp a) = ?d"
    by (simp_all add: attempt_ok_def successful_on_def)
  have cg: "todayCount tz (t_gate a) (Some u) = c"
    using todayCount_same_day[OF days(1), of "Some u"] Cons.prems(4) by simp
  have ct: "todayCount tz (t_today a) (Some u) = c"
    using todayCount_same_day[OF days(2), of "Some u"] Cons.prems(4) by simp
  show ?case
  proof (cases "c < 3")
    case True
    let ?u1 = "u\<lparr>scans_today := Some (c + 1), last_scan_date := Some (t_stamp a)\<rparr>"
    obtain e s1 where sa0: "scan_attempt tz a s = (e, s1)" by (cases "scan_attempt tz a s")
    from scan_attempt_allowed[OF Cons.prems(1,2,3) a] True cg ct
    have step: "e = Navigate ''ScanResults'' None"
      "signed_in s1" "requests s1 = Suc (requests s)" "user s1 = Some ?u1"
      unfolding sa0 by simp_all
    have free1: "checkSubscriptionStatus (Some ?u1) = ''free''"
      using Cons.prems(3) by (simp add: status_after)
    have c1: "todayCount tz now (Some ?u1) = c + 1"
      by (rule todayCount_after) (rule days(3))
    have b1: "0 \<le> c + 1" "c + 1 \<le> 3" using True Cons.prems(5) by simp_all
    from Cons.IH[OF step(2) step(4) free1 c1 b1 rest]
    obtain s' u' where ih: "scan_attempts tz as s1 =
            (replicate (min (nat (3 - (c + 1))) (length as)) (Navigate ''ScanResults'' None) @
             replicate (length as - nat (3 - (c + 1))) (Alert ''Daily Limit Reached''), s')"
          "user s' = Some u'"
          "todayCount tz now (Some u') = min 3 (c + 1 + int (length as))"
          "requests s' = requests s1 + min (nat (3 - (c + 1))) (length as)"
          "checkSubscriptionStatus (Some u') = ''free''"
      by blast
    from True Cons.prems(5) have n: "nat (3 - c) = Suc (nat (3 - (c + 1)))" by simp
    have run: "scan_attempts tz (a # as) s =
        (Navigate ''ScanResults'' None #
           replicate (min (nat (3 - (c + 1))) (length as)) (Navigate ''ScanResults'' None) @
           replicate (length as - nat (3 - (c + 1))) (Alert ''Daily Limit Reached''), s')"
      by (simp add: sa0 step(1) ih(1))
    show ?thesis
      unfolding n run using ih(2,3,5) by (simp add: ih(4) step(3) add.commute add.left_commute)
  next
    case False
    with Cons.prems(6) have c3: "c = 3" by simp
    from scan_attempt_denied[OF Cons.prems(2,3), of tz a] cg c3
    have sa: "scan_attempt tz a s = (Alert ''Daily Limit Reached'', s)" by simp
    from Cons.IH[OF Cons.prems(1,2,3,4,5,6) rest]
    obtain s' u' where ih: "scan_attempts tz as s =
            (replicate (min (nat (3 - c)) (length as)) (Navigate ''ScanResults'' None) @
             replicate (length as - nat (3 - c)) (Alert ''Daily Limit Reached''), s')"
          "user s' = Some u'"
          "todayCount tz now (Some u') = min 3 (c + int (length as))"
          "requests s' = requests s + min (nat (3 - c)) (length as)"
          "checkSubscriptionStatus (Some u') = ''free''"
      by blast
    have run: "scan_attempts tz (a # as) s =
        (Alert ''Daily Limit Reached'' #
           replicate (min (nat (3 - c)) (length as)) (Navigate ''ScanResults'' None) @
           replicate (length as - nat (3 - c)) (Alert ''Daily Limit Reached''), s')"
      by (simp add: sa ih(1))
    have k: "nat (3 - c) = 0" using c3 by simp
    show ?thesis
      unfolding run k using ih(2,3,4,5) c3 by (simp add: replicate_append_same)
  qed
qed

lemma unknown_feature_denied:
  "map_of premiumFeatures f = None \<Longrightarrow> \<not> List.member object_prototype_keys f \<Longrightarrow>
   canAccessPremiumFeature uo f = JBool False"
  by (simp add: canAccessPremiumFeature_def premiumFeatures_get_def or_false_def)

lemma absent_plan_is_free:
  "checkSubscriptionStatus (Some (u\<lparr>subscription_plan := None\<rparr>)) = ''free'' \<and>
   checkSubscriptionStatus (Some (u\<lparr>subscription_plan := Some ''free''\<rparr>)) = ''free'' \<and>
   canAccessPremiumFeature (Some (u\<lparr>subscription_plan := None\<rparr>)) f =
     canAccessPremiumFeature (Some (u\<lparr>subscription_plan := Some ''free''\<rparr>)) f \<and>
   getRemainingScans tz now (Some (u\<lparr>subscription_plan := None\<rparr>)) =
     getRemainingScans tz now (Some (u\<lparr>subscription_plan := Some ''free''\<rparr>))"
  by (simp add: checkSubscriptionStatus_def canAccessPremiumFeature_def getRemainingScans_def
      lastScanDate_def scans_or_zero_def)

subsection \<open>The daily quota of a free user\<close>

text \<open>
  Claim C1, as the code has it. \<^verbatim>\<open>identifyBird\<close> never refuses a scan: it records every
  successful identification. The limit of three is enforced on the camera screen, whose
  \<^verbatim>\<open>takePicture\<close> consults \<^verbatim>\<open>getRemainingScans\<close> before a photo is captured. For a signed-in
  free user whose count for the day is 0, in a run of scan attempts of that day in which the
  camera delivers a photo, the backend answers with a result and the store accepts the write,
  the first three attempts reach the result screen and each raises the stored count by 1;
  every later attempt ends with the alert \<^verbatim>\<open>Daily Limit Reached\<close>, the remaining scans are 0,
  and neither the count nor the number of requests changes.
\<close>

theorem free_tier_three_scan_attempts_a_day:
  "signed_in s \<and> user s = Some u \<and> checkSubscriptionStatus (Some u) = ''free'' \<and>
   todayCount tz now (Some u) = 0 \<and> list_all (attempt_ok tz (toDateString tz now)) as \<longrightarrow>
   fst (scan_attempts tz as s) =
     replicate (min 3 (length as)) (Navigate ''ScanResults'' None) @
     replicate (length as - 3) (Alert ''Daily Limit Reached'') \<and>
   todayCount tz now (user (snd (scan_attempts tz as s))) = min 3 (int (length as)) \<and>
   getRemainingScans tz now (user (snd (scan_attempts tz as s))) = 3 - min 3 (int (length as)) \<and>
   requests (snd (scan_attempts tz as s)) = requests s + min 3 (length as)"
proof
  assume h: "signed_in s \<and> user s = Some u \<and> checkSubscriptionStatus (Some u) = ''free'' \<and>
   todayCount tz now (Some u) = 0 \<and> list_all (attempt_ok tz (toDateString tz now)) as"
  then have all: "\<forall>a\<in>set as. attempt_ok tz (toDateString tz now) a"
    by (simp add: list_all_iff)
  have z: "(0::int) \<le> 0" "(0::int) \<le> 3" by simp_all
  from h have h': "signed_in s" "user s = Some u" "checkSubscriptionStatus (Some u) = ''free''"
    "todayCount tz now (Some u) = 0" by simp_all
  from scan_attempts_run[OF h' z all] obtain s' u' where
    run: "scan_attempts tz as s =
            (replicate (min (nat (3 - 0)) (length as)) (Navigate ''ScanResults'' None) @
             replicate (length as - nat (3 - 0)) (Alert ''Daily Limit Reached''), s')"
      "user s' = Some u'" "todayCount tz now (Some u') = min 3 (0 + int (length as))"
      "requests s' = requests s + min (nat (3 - 0)) (length as)"
      "checkSubscriptionStatus (Some u') = ''free''"
    by blast
  have three: "nat (3 - 0) = 3" by simp
  show "fst (scan_attempts tz as s) =
     replicate (min 3 (length as)) (Navigate ''ScanResults'' None) @
     replicate (length as - 3) (Alert ''Daily Limit Reached'') \<and>
   todayCount tz now (user (snd (scan_attempts tz as s))) = min 3 (int (length as)) \<and>
   getRemainingScans tz now (user (snd (scan_attempts tz as s))) = 3 - min 3 (int (length as)) \<and>
   requests (snd (scan_attempts tz as s)) = requests s + min 3 (length as)"
    using run unfolding three by (simp add: getRemainingScans_todayCount)
qed

theorem free_tier_three_scan_attempts_a_day_witness:
  "signed_in (phone alice) \<and> user (phone alice) = Some alice \<and>
   checkSubscriptionStatus (Some alice) = ''free'' \<and> todayCount 0 1002 (Some alice) = 0 \<and>
   list_all (attempt_ok 0 (toDateString 0 1002)) (replicate 5 robin_attempt) \<and>
   fst (scan_attempts 0 (replicate 5 robin_attempt) (phone alice)) =
     [Navigate ''ScanResults'' None, Navigate ''ScanResults'' None, Navigate ''ScanResults'' None,
      Alert ''Daily Limit Reached'', Alert ''Daily Limit Reached''] \<and>
   todayCount 0 1002 (user (snd (scan_attempts 0 (replicate 5 robin_attempt) (phone alice)))) = 3 \<and>
   getRemainingScans 0 1002
     (user (snd (scan_attempts 0 (replicate 5 robin_attempt) (phone alice)))) = 0 \<and>
   requests (snd (scan_attempts 0 (replicate 5 robin_attempt) (phone alice))) = 3"
proof -
  have h: "signed_in (phone alice) \<and> user (phone alice) = Some alice \<and>
      checkSubscriptionStatus (Some alice) = ''free'' \<and> todayCount 0 1002 (Some alice) = 0 \<and>
      list_all (attempt_ok 0 (toDateString 0 1002)) (replicate 5 robin_attempt)"
    by (simp add: signed_in_def phone_def alice_def checkSubscriptionStatus_def todayCount_def
        lastScanDate_def attempt_ok_def successful_on_def robin_attempt_def toDateString_def
        list_all_iff)
  have r: "requests (phone alice) = 0" by (simp add: phone_def)
  have l: "replicate 3 (Navigate ''ScanResults'' None) @ replicate 2 (Alert ''Daily Limit Reached'') =
     [Navigate ''ScanResults'' None, Navigate ''ScanResults'' None, Navigate ''ScanResults'' None,
      Alert ''Daily Limit Reached'', Alert ''Daily Limit Reached'']"
    by (simp add: numeral_3_eq_3 numeral_2_eq_2)
  from free_tier_three_scan_attempts_a_day[of "phone alice" alice 0 1002 "replicate 5 robin_attempt"]
    h r l
  show ?thesis by simp
qed

text \<open>
  Four calls of \<^verbatim>\<open>identifyBird\<close> in a row by a free user, from a count of 0: all four return a
  result and the stored count is 4.
\<close>

theorem fourth_identifyBird_call_is_counted:
  "list_all is_result (fst (identifyBird_calls 0 (replicate 4 robin_call) (phone alice))) \<and>
   length (fst (identifyBird_calls 0 (replicate 4 robin_call) (phone alice))) = 4 \<and>
   todayCount 0 1002 (user (snd (identifyBird_calls 0 (replicate 4 robin_call) (phone alice)))) = 4"
proof -
  have s: "signed_in (phone alice)" "user (phone alice) = Some alice"
    by (simp_all add: signed_in_def phone_def)
  have c: "\<forall>c\<in>set (replicate 4 robin_call). successful_on 0 (toDateString 0 1002) c"
    by (simp add: successful_on_def robin_call_def toDateString_def)
  have z: "todayCount 0 1002 (Some alice) = 0"
    by (simp add: todayCount_def lastScanDate_def alice_def)
  from identifyBird_calls_success[OF s c] z show ?thesis
    by (auto simp: list_all_iff)
qed

subsection \<open>Where the quota is checked\<close>

text \<open>
  Claim C2, as the code has it. The quota is checked when a photo is captured, not inside
  \<^verbatim>\<open>identifyBird\<close>: when \<^verbatim>\<open>getRemainingScans\<close> is 0, \<^verbatim>\<open>takePicture\<close> and \<^verbatim>\<open>pickImage\<close> show the
  alert and leave the state as it was, so a scan attempt sends no request; with no captured
  image \<^verbatim>\<open>identifyBirdPhoto\<close> does nothing. \<^verbatim>\<open>identifyBird\<close> itself, whenever a token is
  present, sends exactly one request to the backend, whatever the quota.
\<close>

theorem quota_check_is_at_capture:
  "(getRemainingScans tz now (user s) = 0 \<longrightarrow>
      takePicture tz now True ph s = (Alert ''Daily Limit Reached'', s) \<and>
      pickImage tz now picked s = (Alert ''Daily Limit Reached'', s) \<and>
      (t_gate a = now \<longrightarrow> scan_attempt tz a s = (Alert ''Daily Limit Reached'', s))) \<and>
   (capturedImage s = None \<longrightarrow> identifyBirdPhoto tz tt ts ok rp s = (Nothing, s)) \<and>
   (signed_in s \<longrightarrow> requests (snd (identifyBird tz tt ts ok rp s)) = Suc (requests s))"
  by (simp add: takePicture_def pickImage_def scan_attempt_def identifyBirdPhoto_def
      identifyBird_requests)

theorem quota_check_is_at_capture_witness:
  "getRemainingScans 0 900 (user (phone dave)) = 0 \<and> t_gate robin_attempt = 900 \<and>
   capturedImage (phone dave) = None \<and> signed_in (phone dave) \<and>
   scan_attempt 0 robin_attempt (phone dave) = (Alert ''Daily Limit Reached'', phone dave) \<and>
   identifyBirdPhoto 0 1000 1001 True (ApiJson (Some (Bird ''Robin''))) (phone dave) =
     (Nothing, phone dave) \<and>
   requests (snd (identifyBird 0 1000 1001 True (ApiJson (Some (Bird ''Robin''))) (phone dave))) =
     Suc (requests (phone dave))"
proof -
  have h: "getRemainingScans 0 900 (user (phone dave)) = 0 \<and> t_gate robin_attempt = 900 \<and>
      capturedImage (phone dave) = None \<and> signed_in (phone dave)"
    by (simp add: getRemainingScans_def phone_def dave_def checkSubscriptionStatus_def
        lastScanDate_def toDateString_def scans_or_zero_def robin_attempt_def signed_in_def)
  from quota_check_is_at_capture[of 0 900 "phone dave" "photo robin_attempt" PickCanceled
      robin_attempt 1000 1001 True "ApiJson (Some (Bird ''Robin''))"] h
  show ?thesis by simp
qed

text \<open>
  A free user with three scans recorded today, for whom \<^verbatim>\<open>getRemainingScans\<close> is 0, calls
  \<^verbatim>\<open>identifyBird\<close>: the request is sent and the result returned.
\<close>

theorem exhausted_user_still_reaches_backend:
  "getRemainingScans 0 1000 (user (phone dave)) = 0 \<and>
   fst (identifyBird 0 1000 1001 True (ApiJson (Some (Bird ''Robin''))) (phone dave)) =
     Inr (Bird ''Robin'') \<and>
   requests (phone dave) = 0 \<and>
   requests (snd (identifyBird 0 1000 1001 True (ApiJson (Some (Bird ''Robin''))) (phone dave))) = 1"
  by (simp add: identifyBird_def phone_def dave_def Let_def updateUser_def spread_def
      lastScanDate_def toDateString_def scans_or_zero_def checkSubscriptionStatus_def
      getRemainingScans_def)

subsection \<open>Premium users\<close>

text \<open>
  Claim C3, as the code has it. For a user whose plan is \<^verbatim>\<open>premium_monthly\<close> or
  \<^verbatim>\<open>premium_yearly\<close>, \<^verbatim>\<open>getRemainingScans\<close> returns the sentinel \<open>-1\<close> whatever the stored
  count and date, so \<^verbatim>\<open>takePicture\<close> and \<^verbatim>\<open>pickImage\<close> capture. A successful \<^verbatim>\<open>identifyBird\<close>
  does write the scan count and the scan date of such a user, as for any user; the sentinel
  is \<open>-1\<close> afterwards as well.
\<close>

theorem premium_unlimited_but_scans_recorded:
  "subscription_plan u \<in> {Some ''premium_monthly'', Some ''premium_yearly''} \<Longrightarrow>
   getRemainingScans tz now (Some u) = - 1 \<and>
   (user s = Some u \<longrightarrow>
      fst (takePicture tz now True (Some uri) s) = Captured \<and>
      fst (pickImage tz now (PickAsset uri) s) = Captured) \<and>
   (user s = Some u \<and> signed_in s \<longrightarrow>
      user (snd (identifyBird tz tt ts True (ApiJson (Some b)) s)) =
        Some (u\<lparr>scans_today := Some (todayCount tz tt (Some u) + 1),
                 last_scan_date := Some ts\<rparr>) \<and>
      getRemainingScans tz now
        (user (snd (identifyBird tz tt ts True (ApiJson (Some b)) s))) = - 1)"
proof (intro conjI impI)
  assume p: "subscription_plan u \<in> {Some ''premium_monthly'', Some ''premium_yearly''}"
  show r: "getRemainingScans tz now (Some u) = - 1"
    by (rule getRemainingScans_premium[OF p])
  {
    assume "user s = Some u"
    with r show "fst (takePicture tz now True (Some uri) s) = Captured"
      and "fst (pickImage tz now (PickAsset uri) s) = Captured"
      by (simp_all add: takePicture_def pickImage_def)
  }
  {
    assume h: "user s = Some u \<and> signed_in s"
    then have run: "user (snd (identifyBird tz tt ts True (ApiJson (Some b)) s)) =
        Some (u\<lparr>scans_today := Some (todayCount tz tt (Some u) + 1),
                 last_scan_date := Some ts\<rparr>)"
      by (simp add: identifyBird_recorded[of s u])
    then show "user (snd (identifyBird tz tt ts True (ApiJson (Some b)) s)) =
        Some (u\<lparr>scans_today := Some (todayCount tz tt (Some u) + 1),
                 last_scan_date := Some ts\<rparr>)" .
    from p show "getRemainingScans tz now
        (user (snd (identifyBird tz tt ts True (ApiJson (Some b)) s))) = - 1"
      unfolding run by (intro getRemainingScans_premium) simp
  }
qed

theorem premium_unlimited_but_scans_recorded_witness:
  "subscription_plan carol \<in> {Some ''premium_monthly'', Some ''premium_yearly''} \<and>
   user (phone carol) = Some carol \<and> signed_in (phone carol) \<and>
   getRemainingScans 0 1000 (Some carol) = - 1 \<and>
   fst (takePicture 0 1000 True (Some ''file:///photo.jpg'') (phone carol)) = Captured \<and>
   user (snd (identifyBird 0 1000 1001 True (ApiJson (Some (Bird ''Robin''))) (phone carol))) =
     Some (carol\<lparr>scans_today := Some 1, last_scan_date := Some 1001\<rparr>)"
proof -
  have h: "subscription_plan carol \<in> {Some ''premium_monthly'', Some ''premium_yearly''} \<and>
      user (phone carol) = Some carol \<and> signed_in (phone carol)"
    by (simp add: carol_def phone_def signed_in_def)
  have c: "todayCount 0 1000 (Some carol) = 0"
    by (simp add: todayCount_def lastScanDate_def scans_or_zero_def carol_def toDateString_def)
  from h have p: "subscription_plan carol \<in> {Some ''premium_monthly'', Some ''premium_yearly''}"
    by blast
  from premium_unlimited_but_scans_recorded[OF p, of 0 1000 "phone carol" "''file:///photo.jpg''"
      1000 1001 "Bird ''Robin''"] h c
  show ?thesis by simp
qed

text \<open>
  A successful identification by a premium user changes the stored count and date.
\<close>

theorem premium_scan_is_recorded:
  "checkSubscriptionStatus (user (phone carol)) = ''premium_monthly'' \<and>
   user (snd (identifyBird 0 1000 1001 True (ApiJson (Some (Bird ''Robin''))) (phone carol))) =
     Some \<lparr>subscription_plan = Some ''premium_monthly'', scans_today = Some 1,
           last_scan_date = Some 1001\<rparr> \<and>
   user (snd (identifyBird 0 1000 1001 True (ApiJson (Some (Bird ''Robin''))) (phone carol))) \<noteq>
     user (phone carol)"
  by (simp add: identifyBird_def phone_def carol_def Let_def updateUser_def spread_def
      lastScanDate_def toDateString_def scans_or_zero_def checkSubscriptionStatus_def)

subsection \<open>Reading the remaining scans\<close>

text \<open>
  Claim C4. For a signed-in user the read-only \<^verbatim>\<open>getRemainingScans\<close> returns \<open>-1\<close> when the
  subscription is not free and otherwise \<open>max 0 (3 - todayCount)\<close>, the count being the one
  stored for the current calendar day (0 when the stored date is another day or absent).
  After \<open>N \<le> 3\<close> successful identifications of a free user on one day, starting from a
  count of 0, it returns \<open>3 - N\<close>. The function only reads its arguments.
\<close>

theorem remaining_scans_read:
  "getRemainingScans tz now (Some v) =
     (if checkSubscriptionStatus (Some v) \<noteq> ''free'' then - 1
      else max 0 (3 - todayCount tz now (Some v))) \<and>
   (signed_in s \<and> user s = Some u \<and> checkSubscriptionStatus (Some u) = ''free'' \<and>
    todayCount tz now (Some u) = 0 \<and>
    list_all (successful_on tz (toDateString tz now)) cs \<and> length cs \<le> 3 \<longrightarrow>
    getRemainingScans tz now (user (snd (identifyBird_calls tz cs s))) = 3 - int (length cs))"
proof (intro conjI impI)
  show "getRemainingScans tz now (Some v) =
     (if checkSubscriptionStatus (Some v) \<noteq> ''free'' then - 1
      else max 0 (3 - todayCount tz now (Some v)))"
    by (rule getRemainingScans_todayCount)
next
  assume h: "signed_in s \<and> user s = Some u \<and> checkSubscriptionStatus (Some u) = ''free'' \<and>
    todayCount tz now (Some u) = 0 \<and>
    list_all (successful_on tz (toDateString tz now)) cs \<and> length cs \<le> 3"
  then have all: "\<forall>c\<in>set cs. successful_on tz (toDateString tz now) c"
    by (simp add: list_all_iff)
  from h identifyBird_calls_success[OF _ _ all, of s u] obtain rs s' u' where
    run: "identifyBird_calls tz cs s = (rs, s')" "user s' = Some u'"
      "checkSubscriptionStatus (Some u') = checkSubscriptionStatus (Some u)"
      "todayCount tz now (Some u') = todayCount tz now (Some u) + int (length cs)"
    by blast
  with h show "getRemainingScans tz now (user (snd (identifyBird_calls tz cs s))) =
      3 - int (length cs)"
    by (simp add: getRemainingScans_todayCount)
qed

theorem remaining_scans_read_witness:
  "signed_in (phone alice) \<and> user (phone alice) = Some alice \<and>
   checkSubscriptionStatus (Some alice) = ''free'' \<and> todayCount 0 1002 (Some alice) = 0 \<and>
   list_all (successful_on 0 (toDateString 0 1002)) [robin_call, robin_call] \<and>
   length [robin_call, robin_call] \<le> 3 \<and>
   getRemainingScans 0 1002
     (user (snd (identifyBird_calls 0 [robin_call, robin_call] (phone alice)))) = 1 \<and>
   getRemainingScans 0 1002 (Some carol) = - 1"
proof -
  have h: "signed_in (phone alice) \<and> user (phone alice) = Some alice \<and>
      checkSubscriptionStatus (Some alice) = ''free'' \<and> todayCount 0 1002 (Some alice) = 0 \<and>
      list_all (successful_on 0 (toDateString 0 1002)) [robin_call, robin_call] \<and>
      length [robin_call, robin_call] \<le> 3"
    by (simp add: signed_in_def phone_def alice_def checkSubscriptionStatus_def todayCount_def
        lastScanDate_def successful_on_def robin_call_def toDateString_def)
  have p: "checkSubscriptionStatus (Some carol) \<noteq> ''free''"
    by (simp add: checkSubscriptionStatus_def carol_def)
  note t = remaining_scans_read[of 0 1002 carol "phone alice" alice "[robin_call, robin_call]"]
  from t h have "getRemainingScans 0 1002
     (user (snd (identifyBird_calls 0 [robin_call, robin_call] (phone alice)))) = 3 - int 2"
    by simp
  moreover from t p have "getRemainingScans 0 1002 (Some carol) = - 1" by simp
  ultimately show ?thesis using h by simp
qed

subsection \<open>The feature gate\<close>

text \<open>
  Claim C5. For each of the eight enumerated premium features \<^verbatim>\<open>canAccessPremiumFeature\<close>
  returns \<^verbatim>\<open>true\<close> when the subscription is not free and \<^verbatim>\<open>false\<close> when it is free: one
  rule for all of them.
\<close>

theorem enumerated_features_follow_tier:
  "f \<in> {''unlimited_scans'', ''migration_maps'', ''full_audio'', ''detailed_info'',
          ''unlimited_sightings'', ''community_post'', ''offline_mode'', ''push_notifications''} \<Longrightarrow>
   canAccessPremiumFeature uo f = JBool (checkSubscriptionStatus uo \<noteq> ''free'')"
  by (auto simp: canAccessPremiumFeature_def premiumFeatures_get_def premiumFeatures_def or_false_def)

theorem enumerated_features_follow_tier_witness:
  "canAccessPremiumFeature (Some carol) ''migration_maps'' = JBool True \<and>
   canAccessPremiumFeature (Some alice) ''migration_maps'' = JBool False"
  using enumerated_features_follow_tier[of "''migration_maps''" "Some carol"]
    enumerated_features_follow_tier[of "''migration_maps''" "Some alice"]
  by (simp add: checkSubscriptionStatus_def carol_def alice_def)

subsection \<open>Count within a day and across days\<close>

text \<open>
  Claim C6 at a scan that straddles midnight. \<^verbatim>\<open>identifyBird\<close> reads the clock once for
  \<^verbatim>\<open>today\<close> and again for the date it stores. A free user with two scans on day 0 makes a
  third one whose first reading is the last millisecond of day 0 and whose second reading is
  the first of day 1: the code takes the branch of the same day, and stores the count 3 under
  the date of day 1. The count of day 0 drops from 2 to 0, and day 1 starts with a count of
  3 instead of 0: no scans remain and the first scan attempt of day 1 is refused with
  \<^verbatim>\<open>Daily Limit Reached\<close>.
\<close>

theorem midnight_straddle_keeps_old_count:
  "toDateString 0 86399999 = 0 \<and> toDateString 0 86400000 = 1 \<and>
   todayCount 0 86399999 (user (phone frank)) = 2 \<and>
   user (snd (identifyBird 0 86399999 86400000 True (ApiJson (Some (Bird ''Robin''))) (phone frank))) =
     Some \<lparr>subscription_plan = Some ''free'', scans_today = Some 3,
           last_scan_date = Some 86400000\<rparr> \<and>
   todayCount 0 86399999
     (user (snd (identifyBird 0 86399999 86400000 True (ApiJson (Some (Bird ''Robin'')))
        (phone frank)))) = 0 \<and>
   toDateString 0 (t_gate next_day_attempt) = 1 \<and>
   getRemainingScans 0 (t_gate next_day_attempt)
     (user (snd (identifyBird 0 86399999 86400000 True (ApiJson (Some (Bird ''Robin'')))
        (phone frank)))) = 0 \<and>
   fst (scan_attempt 0 next_day_attempt
     (snd (identifyBird 0 86399999 86400000 True (ApiJson (Some (Bird ''Robin'')))
        (phone frank)))) = Alert ''Daily Limit Reached''"
proof -
  have run: "identifyBird 0 86399999 86400000 True (ApiJson (Some (Bird ''Robin''))) (phone frank) =
     (Inr (Bird ''Robin''),
      \<lparr>authToken = Some ''token'',
       user = Some \<lparr>subscription_plan = Some ''free'', scans_today = Some 3,
                    last_scan_date = Some 86400000\<rparr>,
       currentBird = Some (Bird ''Robin''), capturedImage = None, requests = 1\<rparr>)"
    by (simp add: identifyBird_def phone_def frank_def Let_def updateUser_def spread_def
        lastScanDate_def toDateString_def scans_or_zero_def)
  show ?thesis
    unfolding run
    by (simp add: toDateString_def todayCount_def lastScanDate_def scans_or_zero_def phone_def
        frank_def getRemainingScans_def checkSubscriptionStatus_def scan_attempt_def
        takePicture_def next_day_attempt_def)
qed

text \<open>
  When both clock readings of a call fall on one day the count behaves as intended: a call of
  \<^verbatim>\<open>identifyBird\<close> whose readings fall on the day of \<open>now\<close> never lowers the count stored for
  that day, and for a free user who has three or more scans recorded on day \<open>d\<close>, on any
  other day \<open>d'\<close> the count is 0, three scans remain, a scan attempt whose readings all fall
  on \<open>d'\<close> succeeds and the stored count for the new day is 1.
\<close>

lemma scan_count_monotone_and_daily_reset:
  "(toDateString tz tt = toDateString tz now \<and> toDateString tz ts = toDateString tz now \<longrightarrow>
      todayCount tz now (user s) \<le>
        todayCount tz now (user (snd (identifyBird tz tt ts ok rp s)))) \<and>
   (signed_in s \<and> user s = Some u \<and> checkSubscriptionStatus (Some u) = ''free'' \<and>
    lastScanDate tz u = Some d \<and> 3 \<le> scans_or_zero u \<and> d' \<noteq> d \<and> attempt_ok tz d' a \<longrightarrow>
      todayCount tz (t_gate a) (Some u) = 0 \<and>
      getRemainingScans tz (t_gate a) (Some u) = 3 \<and>
      fst (scan_attempt tz a s) = Navigate ''ScanResults'' None \<and>
      user (snd (scan_attempt tz a s)) =
        Some (u\<lparr>scans_today := Some 1, last_scan_date := Some (t_stamp a)\<rparr>) \<and>
      todayCount tz (t_stamp a) (user (snd (scan_attempt tz a s))) = 1)"
proof (intro conjI impI)
  assume "toDateString tz tt = toDateString tz now \<and> toDateString tz ts = toDateString tz now"
  then show "todayCount tz now (user s) \<le>
        todayCount tz now (user (snd (identifyBird tz tt ts ok rp s)))"
    using identifyBird_monotone by blast
next
  assume h: "signed_in s \<and> user s = Some u \<and> checkSubscriptionStatus (Some u) = ''free'' \<and>
    lastScanDate tz u = Some d \<and> 3 \<le> scans_or_zero u \<and> d' \<noteq> d \<and> attempt_ok tz d' a"
  then have days: "toDateString tz (t_gate a) = d'" "toDateString tz (t_today a) = d'"
    by (simp_all add: attempt_ok_def successful_on_def)
  from h days show z: "todayCount tz (t_gate a) (Some u) = 0"
    by (auto simp: todayCount_def)
  from h days have z': "todayCount tz (t_today a) (Some u) = 0"
    by (auto simp: todayCount_def)
  from h z show "getRemainingScans tz (t_gate a) (Some u) = 3"
    by (simp add: getRemainingScans_todayCount)
  from h z have step: "fst (scan_attempt tz a s) = Navigate ''ScanResults'' None \<and>
         signed_in (snd (scan_attempt tz a s)) \<and>
         capturedImage (snd (scan_attempt tz a s)) = None \<and>
         requests (snd (scan_attempt tz a s)) = Suc (requests s) \<and>
         user (snd (scan_attempt tz a s)) =
           Some (u\<lparr>scans_today := Some (todayCount tz (t_today a) (Some u) + 1),
                    last_scan_date := Some (t_stamp a)\<rparr>)"
    by (intro scan_attempt_allowed[of s u tz d' a]) simp_all
  then show "fst (scan_attempt tz a s) = Navigate ''ScanResults'' None" by blast
  from step z' show u': "user (snd (scan_attempt tz a s)) =
        Some (u\<lparr>scans_today := Some 1, last_scan_date := Some (t_stamp a)\<rparr>)"
    by simp
  show "todayCount tz (t_stamp a) (user (snd (scan_attempt tz a s))) = 1"
    unfolding u' by (rule todayCount_after) simp
qed

lemma scan_count_monotone_and_daily_reset_instance:
  "toDateString 0 1000 = toDateString 0 1002 \<and> toDateString 0 1001 = toDateString 0 1002 \<and>
   signed_in (phone dave) \<and> user (phone dave) = Some dave \<and>
   checkSubscriptionStatus (Some dave) = ''free'' \<and> lastScanDate 0 dave = Some 0 \<and>
   3 \<le> scans_or_zero dave \<and> (1::int) \<noteq> 0 \<and> attempt_ok 0 1 next_day_attempt \<and>
   todayCount 0 1002 (user (phone dave)) \<le>
     todayCount 0 1002
       (user (snd (identifyBird 0 1000 1001 True (ApiJson (Some (Bird ''Robin''))) (phone dave)))) \<and>
   getRemainingScans 0 (t_gate next_day_attempt) (Some dave) = 3 \<and>
   fst (scan_attempt 0 next_day_attempt (phone dave)) = Navigate ''ScanResults'' None \<and>
   user (snd (scan_attempt 0 next_day_attempt (phone dave))) =
     Some (dave\<lparr>scans_today := Some 1, last_scan_date := Some (t_stamp next_day_attempt)\<rparr>)"
proof -
  have h1: "toDateString 0 1000 = toDateString 0 1002 \<and> toDateString 0 1001 = toDateString 0 1002"
    by (simp add: toDateString_def)
  have h2: "signed_in (phone dave) \<and> user (phone dave) = Some dave \<and>
      checkSubscriptionStatus (Some dave) = ''free'' \<and> lastScanDate 0 dave = Some 0 \<and>
      3 \<le> scans_or_zero dave \<and> (1::int) \<noteq> 0 \<and> attempt_ok 0 1 next_day_attempt"
    by (simp add: signed_in_def phone_def dave_def checkSubscriptionStatus_def lastScanDate_def
        toDateString_def scans_or_zero_def attempt_ok_def successful_on_def next_day_attempt_def)
  from scan_count_monotone_and_daily_reset[of 0 1000 1002 1001 "phone dave" True
      "ApiJson (Some (Bird ''Robin''))" dave 0 1 next_day_attempt] h1 h2
  show ?thesis by simp
qed

subsection \<open>No user, no plan, no token\<close>

text \<open>
  Claim C7, as the code has it. Without a user the entitlement reads return defaults and do
  not fail: the subscription is \<^verbatim>\<open>free\<close>, every feature is denied and no scans remain. A
  user without a plan is a free user. Only \<^verbatim>\<open>identifyBird\<close> fails at once, with
  \<^verbatim>\<open>Authentication required\<close>, when the token is missing; it then sends no request and leaves
  the state unchanged.
\<close>

theorem missing_session_gets_defaults:
  "checkSubscriptionStatus None = ''free'' \<and>
   canAccessPremiumFeature None f = JBool False \<and>
   getRemainingScans tz now None = 0 \<and>
   (subscription_plan u = None \<longrightarrow>
      checkSubscriptionStatus (Some u) = ''free'' \<and>
      canAccessPremiumFeature (Some u) f = JBool False \<and>
      getRemainingScans tz now (Some u) = max 0 (3 - todayCount tz now (Some u))) \<and>
   (\<not> signed_in s \<longrightarrow>
      identifyBird tz tt ts ok rp s = (Inl (Error ''Authentication required''), s))"
  by (auto simp: checkSubscriptionStatus_def canAccessPremiumFeature_def getRemainingScans_def
      todayCount_def identifyBird_signed_out)

theorem missing_session_gets_defaults_witness:
  "subscription_plan erin = None \<and> \<not> signed_in ((phone erin)\<lparr>authToken := None\<rparr>) \<and>
   canAccessPremiumFeature (Some erin) ''full_audio'' = JBool False \<and>
   getRemainingScans 0 1000 (Some erin) = 3 \<and>
   identifyBird 0 1000 1001 True (ApiJson (Some (Bird ''Robin''))) ((phone erin)\<lparr>authToken := None\<rparr>) =
     (Inl (Error ''Authentication required''), (phone erin)\<lparr>authToken := None\<rparr>)"
proof -
  have h: "subscription_plan erin = None \<and> \<not> signed_in ((phone erin)\<lparr>authToken := None\<rparr>)"
    by (simp add: erin_def signed_in_def phone_def)
  have c: "todayCount 0 1000 (Some erin) = 0"
    by (simp add: todayCount_def lastScanDate_def erin_def)
  from missing_session_gets_defaults[of "''full_audio''" 0 1000 erin
      "(phone erin)\<lparr>authToken := None\<rparr>" 1000 1001 True "ApiJson (Some (Bird ''Robin''))"] h c
  show ?thesis by simp
qed

text \<open>
  With no user, and with a user that has no plan, the reads return values.
\<close>

theorem no_user_is_not_an_error:
  "getRemainingScans 0 1000 None = 0 \<and>
   canAccessPremiumFeature None ''migration_maps'' = JBool False \<and>
   checkSubscriptionStatus None = ''free'' \<and>
   checkSubscriptionStatus (Some erin) = ''free'' \<and>
   getRemainingScans 0 1000 (Some erin) = 3"
  by (simp add: getRemainingScans_def canAccessPremiumFeature_def checkSubscriptionStatus_def
      erin_def lastScanDate_def)

subsection \<open>The increment of the scan count\<close>

text \<open>
  Claim C8, as the code has it. The update of the scan count in \<^verbatim>\<open>identifyBird\<close> is not
  conditional: every successful call stores the count it read plus one. Any number of
  successful calls made one after the other by a free user on one day, from a count of 0,
  all return a result, and the stored count equals their number.
\<close>

theorem identifyBird_increment_is_unconditional:
  "signed_in s \<and> user s = Some u \<and> checkSubscriptionStatus (Some u) = ''free'' \<and>
   todayCount tz now (Some u) = 0 \<and> list_all (successful_on tz (toDateString tz now)) cs \<longrightarrow>
   list_all is_result (fst (identifyBird_calls tz cs s)) \<and>
   length (fst (identifyBird_calls tz cs s)) = length cs \<and>
   todayCount tz now (user (snd (identifyBird_calls tz cs s))) = int (length cs) \<and>
   requests (snd (identifyBird_calls tz cs s)) = requests s + length cs"
proof
  assume h: "signed_in s \<and> user s = Some u \<and> checkSubscriptionStatus (Some u) = ''free'' \<and>
   todayCount tz now (Some u) = 0 \<and> list_all (successful_on tz (toDateString tz now)) cs"
  then have all: "\<forall>c\<in>set cs. successful_on tz (toDateString tz now) c"
    by (simp add: list_all_iff)
  from h have h': "signed_in s" "user s = Some u" "todayCount tz now (Some u) = 0" by simp_all
  from identifyBird_calls_success[OF h'(1,2) all] h'(3)
  show "list_all is_result (fst (identifyBird_calls tz cs s)) \<and>
   length (fst (identifyBird_calls tz cs s)) = length cs \<and>
   todayCount tz now (user (snd (identifyBird_calls tz cs s))) = int (length cs) \<and>
   requests (snd (identifyBird_calls tz cs s)) = requests s + length cs"
    by (auto simp: list_all_iff)
qed

theorem identifyBird_increment_is_unconditional_witness:
  "signed_in (phone alice) \<and> user (phone alice) = Some alice \<and>
   checkSubscriptionStatus (Some alice) = ''free'' \<and> todayCount 0 1002 (Some alice) = 0 \<and>
   list_all (successful_on 0 (toDateString 0 1002)) (replicate 5 robin_call) \<and>
   list_all is_result (fst (identifyBird_calls 0 (replicate 5 robin_call) (phone alice))) \<and>
   todayCount 0 1002 (user (snd (identifyBird_calls 0 (replicate 5 robin_call) (phone alice)))) = 5 \<and>
   requests (snd (identifyBird_calls 0 (replicate 5 robin_call) (phone alice))) = 5"
proof -
  have h: "signed_in (phone alice) \<and> user (phone alice) = Some alice \<and>
      checkSubscriptionStatus (Some alice) = ''free'' \<and> todayCount 0 1002 (Some alice) = 0 \<and>
      list_all (successful_on 0 (toDateString 0 1002)) (replicate 5 robin_call)"
    by (simp add: signed_in_def phone_def alice_def checkSubscriptionStatus_def todayCount_def
        lastScanDate_def successful_on_def robin_call_def toDateString_def list_all_iff)
  have r: "requests (phone alice) = 0" by (simp add: phone_def)
  from identifyBird_increment_is_unconditional[of "phone alice" alice 0 1002 "replicate 5 robin_call"]
    h r
  show ?thesis by simp
qed

text \<open>
  Ten calls in a row from a count of 0: ten results, and a stored count of 10.
\<close>

theorem ten_calls_ten_scans:
  "list_all is_result (fst (identifyBird_calls 0 (replicate 10 robin_call) (phone alice))) \<and>
   length (fst (identifyBird_calls 0 (replicate 10 robin_call) (phone alice))) = 10 \<and>
   todayCount 0 1002 (user (snd (identifyBird_calls 0 (replicate 10 robin_call) (phone alice)))) = 10 \<and>
   \<not> todayCount 0 1002
       (user (snd (identifyBird_calls 0 (replicate 10 robin_call) (phone alice)))) \<le> 3"
proof -
  have s: "signed_in (phone alice)" "user (phone alice) = Some alice"
    by (simp_all add: signed_in_def phone_def)
  have c: "\<forall>c\<in>set (replicate 10 robin_call). successful_on 0 (toDateString 0 1002) c"
    by (simp add: successful_on_def robin_call_def toDateString_def)
  have z: "todayCount 0 1002 (Some alice) = 0"
    by (simp add: todayCount_def lastScanDate_def alice_def)
  from identifyBird_calls_success[OF s c] z show ?thesis
    by (auto simp: list_all_iff)
qed

subsection \<open>Feature names outside the map\<close>

text \<open>
  Claim C9 at the key \<^verbatim>\<open>constructor\<close>, which is not in the map: for a premium user the
  lookup finds the member inherited from \<^verbatim>\<open>Object.prototype\<close>, and the gate returns that
  truthy value instead of \<^verbatim>\<open>false\<close>. A name that is neither in the map nor inherited, such
  as \<^verbatim>\<open>export_sightings\<close>, is denied.
\<close>

theorem inherited_key_passes_gate:
  "map_of premiumFeatures ''constructor'' = None \<and>
   canAccessPremiumFeature (Some carol) ''constructor'' = JInherited ''constructor'' \<and>
   truthy (canAccessPremiumFeature (Some carol) ''constructor'') \<and>
   canAccessPremiumFeature (Some carol) ''export_sightings'' = JBool False"
  by (simp add: canAccessPremiumFeature_def premiumFeatures_get_def or_false_def
      premiumFeatures_def object_prototype_keys_def checkSubscriptionStatus_def carol_def)

subsection \<open>The sightings screen\<close>

text \<open>
  Claim C10. For a free user the sightings screen takes the storage limit as reached exactly
  when the list of sightings has 5 or more entries, and \<^verbatim>\<open>exportSightings\<close> sends the user to
  the upsell screen however many sightings there are.
\<close>

theorem sightings_limit_free_tier:
  "checkSubscriptionStatus uo = ''free'' \<Longrightarrow>
   hasLimitReached uo sightings = (5 \<le> length sightings) \<and>
   exportSightings uo = Navigate ''PremiumUpsell'' (Some ''export_sightings'')"
  by (simp add: hasLimitReached_def exportSightings_def canAccessPremiumFeature_def)

theorem sightings_limit_free_tier_witness:
  "checkSubscriptionStatus (Some alice) = ''free'' \<and>
   hasLimitReached (Some alice) [1, 2, 3, 4, 5 :: nat] \<and>
   \<not> hasLimitReached (Some alice) [1, 2, 3, 4 :: nat] \<and>
   exportSightings (Some alice) = Navigate ''PremiumUpsell'' (Some ''export_sightings'')"
proof -
  have h: "checkSubscriptionStatus (Some alice) = ''free''"
    by (simp add: checkSubscriptionStatus_def alice_def)
  from sightings_limit_free_tier[OF h, of "[1, 2, 3, 4, 5 :: nat]"]
    sightings_limit_free_tier[OF h, of "[1, 2, 3, 4 :: nat]"] h
  show ?thesis by simp
qed

end
